theory Spec2Isabelle
  imports Complex_Main
begin

section \<open>Values exchanged with the browser\<close>

text \<open>
  JavaScript numbers are modelled as \<^typ>\<open>real\<close>: the claims are about ordering,
  clamping and bookkeeping, not about rounding, and times and durations are finite. A nullable number (\<open>loopA\<close>, \<open>loopB\<close>,
  an omitted \<open>time\<close> argument) is a \<^typ>\<open>real option\<close>, \<open>None\<close> standing for \<open>null\<close>.
  Where a number can be \<open>NaN\<close> (the progress bar code) it is a \<^typ>\<open>real option\<close>
  as well, and the place says so.
\<close>

datatype js_file = File string

datatype url = ObjectUrl nat | UrlString string

datatype js_error =
    Error string
  | DOMException string
  | MediaError nat
  | ErrorEvent
  | TypeError

datatype payload =
    PNull
  | PNum real
  | PBool bool
  | PErr js_error
  | PLoaded real "js_file option"

type_synonym event = string

text \<open>\<open>ToNumber(null)\<close> is \<open>0\<close>: what a comparison or \<open>Math.max\<close> makes of a \<open>null\<close> bound.\<close>

fun to_number :: "real option \<Rightarrow> real" where
  "to_number None = 0"
| "to_number (Some x) = x"

fun num_payload :: "real option \<Rightarrow> payload" where
  "num_payload None = PNull"
| "num_payload (Some x) = PNum x"

fun error_name :: "js_error \<Rightarrow> string" where
  "error_name (Error m) = ''Error''"
| "error_name (DOMException n) = n"
| "error_name (MediaError c) = ''MediaError''"
| "error_name ErrorEvent = ''Event''"
| "error_name TypeError = ''TypeError''"

text \<open>A string used as a condition is true unless it is empty; an object always is.\<close>

fun url_truthy :: "url option \<Rightarrow> bool" where
  "url_truthy None = False"
| "url_truthy (Some (ObjectUrl n)) = True"
| "url_truthy (Some (UrlString s)) = (s \<noteq> [])"

text \<open>A timer handle used as a condition is true unless it is \<open>null\<close> or \<open>0\<close>.\<close>

fun handle_truthy :: "nat option \<Rightarrow> bool" where
  "handle_truthy None = False"
| "handle_truthy (Some i) = (i \<noteq> 0)"

section \<open>utils: clamp\<close>

definition clamp :: "real \<Rightarrow> real \<Rightarrow> real \<Rightarrow> real" where
  "clamp v mn mx = min (max v mn) mx"

section \<open>The AudioPlayer state\<close>

text \<open>The fields of the media element that the player reads or writes.\<close>

record media_element =
  el_src :: url
  el_currentTime :: real
  el_duration :: real
  el_playbackRate :: real
  el_volume :: real
  el_paused :: bool
  el_error :: "nat option"

text \<open>
  The fields of the \<open>AudioPlayer\<close> object. \<open>eventListeners\<close> keeps, in registration order,
  the event name and the identity of each callback. \<open>currentFile\<close> and \<open>currentUrl\<close> are
  undefined until the first \<open>loadAudio\<close>.
\<close>

record audio_player =
  audio :: media_element
  isPlaying :: bool
  currentTime :: real
  duration :: real
  playbackRate :: real
  volume :: real
  loopA :: "real option"
  loopB :: "real option"
  isLooping :: bool
  loopCheckInterval :: "nat option"
  eventListeners :: "(event \<times> nat) list"
  currentFile :: "js_file option"
  currentUrl :: "url option"

text \<open>
  The player together with the part of the browser it acts on: the intervals that are
  scheduled (\<open>setInterval\<close>/\<open>clearInterval\<close>), the object URLs that are live
  (\<open>URL.createObjectURL\<close>/\<open>URL.revokeObjectURL\<close>), and the record of every call of \<open>emit\<close>:
  the event, its data and the player as a callback invoked by that call finds it.
\<close>

record world = audio_player +
  timers :: "nat list"
  nextTimer :: nat
  objectUrls :: "nat list"
  nextUrl :: nat
  emitted :: "(event \<times> payload \<times> audio_player) list"

definition snapshot :: "world \<Rightarrow> audio_player" where
  "snapshot w = audio_player.truncate w"

definition new_element :: media_element where
  "new_element = \<lparr> el_src = UrlString [], el_currentTime = 0, el_duration = 0,
     el_playbackRate = 1, el_volume = 1, el_paused = True, el_error = None \<rparr>"

text \<open>The constructor, in a browser that has scheduled nothing and holds no object URL.\<close>

definition new_player :: world where
  "new_player = \<lparr> audio = new_element, isPlaying = False, currentTime = 0, duration = 0,
     playbackRate = 1, volume = 1, loopA = None, loopB = None, isLooping = False,
     loopCheckInterval = None, eventListeners = [], currentFile = None, currentUrl = None,
     timers = [], nextTimer = 1, objectUrls = [], nextUrl = 0, emitted = [] \<rparr>"

section \<open>Events\<close>

definition on :: "event \<Rightarrow> nat \<Rightarrow> world \<Rightarrow> world" where
  "on ev cb w = w\<lparr>eventListeners := eventListeners w @ [(ev, cb)]\<rparr>"

definition off :: "event \<Rightarrow> nat \<Rightarrow> world \<Rightarrow> world" where
  "off ev cb w = w\<lparr>eventListeners := remove1 (ev, cb) (eventListeners w)\<rparr>"

text \<open>
  \<open>emit\<close> runs the callbacks registered for the event, each under its own \<open>try\<close>. The
  callbacks are the observers' code: the model records the call with the player state
  they are given to read, which is also the state any command they call from within
  would start from. Their own effects on the player are not part of the model.
\<close>

definition emit :: "event \<Rightarrow> payload \<Rightarrow> world \<Rightarrow> world" where
  "emit ev d w = w\<lparr>emitted := emitted w @ [(ev, d, snapshot w)]\<rparr>"

text \<open>The callbacks one recorded call of \<open>emit\<close> invoked.\<close>

fun invoked :: "event \<times> payload \<times> audio_player \<Rightarrow> nat list" where
  "invoked (ev, d, p) = map snd (filter (\<lambda>l. fst l = ev) (eventListeners p))"

definition emitted_names :: "world \<Rightarrow> event list" where
  "emitted_names w = map fst (emitted w)"

definition count_emitted :: "event \<Rightarrow> world \<Rightarrow> nat" where
  "count_emitted ev w = length (filter (\<lambda>e. fst e = ev) (emitted w))"

section \<open>Transport commands\<close>

definition seek :: "real \<Rightarrow> world \<Rightarrow> world" where
  "seek time w =
     (let clampedTime = clamp time 0 (duration w)
      in w\<lparr>audio := (audio w)\<lparr>el_currentTime := clampedTime\<rparr>\<rparr>)"

definition seekBy :: "real \<Rightarrow> world \<Rightarrow> world" where
  "seekBy offset w = seek (currentTime w + offset) w"

definition setPlaybackRate :: "real \<Rightarrow> world \<Rightarrow> world" where
  "setPlaybackRate rate w =
     (let clampedRate = clamp rate 0.25 2.0;
          w1 = w\<lparr>audio := (audio w)\<lparr>el_playbackRate := clampedRate\<rparr>\<rparr>;
          w2 = w1\<lparr>playbackRate := clampedRate\<rparr>
      in emit ''ratechange'' (PNum (playbackRate w2)) w2)"

definition setVolume :: "real \<Rightarrow> world \<Rightarrow> world" where
  "setVolume vol w =
     (let clampedVolume = clamp vol 0 1;
          w1 = w\<lparr>audio := (audio w)\<lparr>el_volume := clampedVolume\<rparr>\<rparr>
      in w1\<lparr>volume := clampedVolume\<rparr>)"

section \<open>The loop check\<close>

definition stopLoopCheck :: "world \<Rightarrow> world" where
  "stopLoopCheck w =
     (case loopCheckInterval w of
        None \<Rightarrow> w
      | Some i \<Rightarrow>
          if handle_truthy (Some i)
          then w\<lparr>timers := removeAll i (timers w), loopCheckInterval := None\<rparr>
          else w)"

text \<open>The closure handed to \<open>setInterval\<close>.\<close>

definition loopCheck :: "world \<Rightarrow> world" where
  "loopCheck w =
     (if isLooping w \<and> currentTime w \<ge> to_number (loopB w)
      then emit ''looped'' PNull (seek (to_number (loopA w)) w)
      else w)"

definition startLoopCheck :: "world \<Rightarrow> world" where
  "startLoopCheck w =
     (if isLooping w \<and> loopA w \<noteq> None \<and> loopB w \<noteq> None
      then (let w1 = stopLoopCheck w
            in w1\<lparr>timers := timers w1 @ [nextTimer w1],
                   loopCheckInterval := Some (nextTimer w1),
                   nextTimer := Suc (nextTimer w1)\<rparr>)
      else w)"

text \<open>The browser runs the closure of an interval that is still scheduled.\<close>

definition timerFired :: "nat \<Rightarrow> world \<Rightarrow> world" where
  "timerFired i w = (if i \<in> set (timers w) then loopCheck w else w)"

section \<open>Loop points\<close>

definition setLoopA :: "real option \<Rightarrow> world \<Rightarrow> world" where
  "setLoopA time w =
     (let w1 = w\<lparr>loopA := Some (case time of Some t \<Rightarrow> t | None \<Rightarrow> currentTime w)\<rparr>;
          w2 = emit ''loopaset'' (num_payload (loopA w1)) w1
      in if loopB w2 \<noteq> None \<and> to_number (loopA w2) > to_number (loopB w2)
         then (let w3 = w2\<lparr>loopA := loopB w2, loopB := loopA w2\<rparr>
               in emit ''loopbset'' (num_payload (loopB w3)) w3)
         else w2)"

definition setLoopB :: "real option \<Rightarrow> world \<Rightarrow> world" where
  "setLoopB time w =
     (let w1 = w\<lparr>loopB := Some (case time of Some t \<Rightarrow> t | None \<Rightarrow> currentTime w)\<rparr>;
          w2 = emit ''loopbset'' (num_payload (loopB w1)) w1
      in if loopA w2 \<noteq> None \<and> to_number (loopB w2) < to_number (loopA w2)
         then (let w3 = w2\<lparr>loopA := loopB w2, loopB := loopA w2\<rparr>
               in emit ''loopaset'' (num_payload (loopA w3)) w3)
         else w2)"

definition toggleLoop :: "world \<Rightarrow> world" where
  "toggleLoop w =
     (if loopA w \<noteq> None \<and> loopB w \<noteq> None
      then (let w1 = w\<lparr>isLooping := \<not> isLooping w\<rparr>;
                w2 = emit ''looptoggle'' (PBool (isLooping w1)) w1
            in if isLooping w2 \<and> isPlaying w2 then startLoopCheck w2 else stopLoopCheck w2)
      else w)"

definition clearLoop :: "world \<Rightarrow> world" where
  "clearLoop w =
     (let w1 = w\<lparr>loopA := None, loopB := None, isLooping := False\<rparr>
      in emit ''loopclear'' PNull (stopLoopCheck w1))"

definition resetLoopPoints :: "world \<Rightarrow> world" where
  "resetLoopPoints w = clearLoop w"

section \<open>Playback\<close>

text \<open>
  \<open>play\<close> awaits the promise of the element's \<open>play()\<close>; how that promise settles is the
  element's answer and a parameter here. The element fires its \<open>play\<close> and \<open>pause\<close> events
  later, as stimuli of their own.
\<close>

datatype play_outcome = PlayResolved | PlayRejected js_error

definition play :: "play_outcome \<Rightarrow> world \<Rightarrow> world" where
  "play outcome w =
     (case outcome of
        PlayResolved \<Rightarrow> startLoopCheck (w\<lparr>audio := (audio w)\<lparr>el_paused := False\<rparr>\<rparr>)
      | PlayRejected err \<Rightarrow> emit ''error'' (PErr err) w)"

definition pause :: "world \<Rightarrow> world" where
  "pause w = stopLoopCheck (w\<lparr>audio := (audio w)\<lparr>el_paused := True\<rparr>\<rparr>)"

definition togglePlayPause :: "play_outcome \<Rightarrow> world \<Rightarrow> world" where
  "togglePlayPause outcome w = (if isPlaying w then pause w else play outcome w)"

section \<open>Handlers of the element's events\<close>

definition handleLoadedMetadata :: "world \<Rightarrow> world" where
  "handleLoadedMetadata w =
     (let w1 = w\<lparr>duration := el_duration (audio w)\<rparr>
      in emit ''loadedmetadata'' (PNum (duration w1)) w1)"

definition handlePlay :: "world \<Rightarrow> world" where
  "handlePlay w = emit ''play'' PNull (startLoopCheck (w\<lparr>isPlaying := True\<rparr>))"

definition handlePause :: "world \<Rightarrow> world" where
  "handlePause w = emit ''pause'' PNull (stopLoopCheck (w\<lparr>isPlaying := False\<rparr>))"

definition handleEnded :: "world \<Rightarrow> world" where
  "handleEnded w = emit ''ended'' PNull (stopLoopCheck (w\<lparr>isPlaying := False\<rparr>))"

definition handleTimeUpdate :: "world \<Rightarrow> world" where
  "handleTimeUpdate w =
     (let w1 = w\<lparr>currentTime := el_currentTime (audio w)\<rparr>
      in emit ''timeupdate'' (PNum (currentTime w1)) w1)"

definition handleDurationChange :: "world \<Rightarrow> world" where
  "handleDurationChange w =
     (let w1 = w\<lparr>duration := el_duration (audio w)\<rparr>
      in emit ''durationchange'' (PNum (duration w1)) w1)"

definition handleRateChange :: "world \<Rightarrow> world" where
  "handleRateChange w =
     (let w1 = w\<lparr>playbackRate := el_playbackRate (audio w)\<rparr>
      in emit ''ratechange'' (PNum (playbackRate w1)) w1)"

definition handleVolumeChange :: "world \<Rightarrow> world" where
  "handleVolumeChange w =
     (let w1 = w\<lparr>volume := el_volume (audio w)\<rparr>
      in emit ''volumechange'' (PNum (volume w1)) w1)"

definition handleError :: "world \<Rightarrow> world" where
  "handleError w =
     (let err = (case el_error (audio w) of
                   Some c \<Rightarrow> MediaError c
                 | None \<Rightarrow> Error ''Audio playback error'')
      in emit ''error'' (PErr err) w)"

section \<open>Loading\<close>

datatype source = SrcFile js_file | SrcString string | SrcOther

text \<open>
  What the element answers to \<open>load()\<close>: its \<open>loadedmetadata\<close> event, with the duration it
  found, or its \<open>error\<close> event, with the code of its \<open>error\<close> attribute.
\<close>

datatype load_outcome = MetadataLoaded real | LoadFailed nat

text \<open>
  \<open>loadAudio\<close> up to the \<open>await\<close>. A source that is neither a \<open>File\<close> nor a string throws
  at once.
\<close>

definition bindSource :: "source \<Rightarrow> world \<Rightarrow> js_error + world" where
  "bindSource source w =
     (case source of
        SrcFile f \<Rightarrow>
          (let u = ObjectUrl (nextUrl w);
               w1 = w\<lparr>objectUrls := objectUrls w @ [nextUrl w], nextUrl := Suc (nextUrl w)\<rparr>;
               w2 = w1\<lparr>audio := (audio w1)\<lparr>el_src := u\<rparr>\<rparr>
           in Inr (w2\<lparr>currentFile := Some f, currentUrl := Some u\<rparr>))
      | SrcString s \<Rightarrow>
          (let w1 = w\<lparr>audio := (audio w)\<lparr>el_src := UrlString s\<rparr>\<rparr>
           in Inr (w1\<lparr>currentFile := None, currentUrl := Some (UrlString s)\<rparr>))
      | SrcOther \<Rightarrow> Inl (Error ''Invalid audio source''))"

text \<open>
  The whole of \<open>loadAudio\<close>: the result is the error it throws, if any, and the state it
  leaves. On the element's \<open>loadedmetadata\<close> the listener of the constructor runs first,
  then the promise resolves; on its \<open>error\<close> the listener of the constructor runs first,
  then the promise rejects with the event and the \<open>catch\<close> emits and throws it again.
\<close>

definition loadAudio :: "source \<Rightarrow> load_outcome \<Rightarrow> world \<Rightarrow> js_error option \<times> world" where
  "loadAudio source outcome w =
     (let w0 = emit ''loadstart'' PNull w
      in case bindSource source w0 of
           Inl err \<Rightarrow> (Some err, emit ''error'' (PErr err) w0)
         | Inr w1 \<Rightarrow>
             (case outcome of
                MetadataLoaded d \<Rightarrow>
                  (let w2 = handleLoadedMetadata (w1\<lparr>audio := (audio w1)\<lparr>el_duration := d\<rparr>\<rparr>);
                       w3 = resetLoopPoints w2
                   in (None, emit ''loaded'' (PLoaded (duration w3) (currentFile w3)) w3))
              | LoadFailed c \<Rightarrow>
                  (let w2 = handleError (w1\<lparr>audio := (audio w1)\<lparr>el_error := Some c\<rparr>\<rparr>)
                   in (Some ErrorEvent, emit ''error'' (PErr ErrorEvent) w2))))"

section \<open>Teardown\<close>

text \<open>Revoking a URL that is not a live object URL does nothing.\<close>

fun revokeObjectURL :: "url option \<Rightarrow> world \<Rightarrow> world" where
  "revokeObjectURL (Some (ObjectUrl n)) w = w\<lparr>objectUrls := removeAll n (objectUrls w)\<rparr>"
| "revokeObjectURL u w = w"

definition destroy :: "world \<Rightarrow> world" where
  "destroy w =
     (let w1 = pause w;
          w2 = stopLoopCheck w1;
          w3 = w2\<lparr>eventListeners := []\<rparr>;
          w4 = (if url_truthy (currentUrl w3) \<and> currentFile w3 \<noteq> None
                then revokeObjectURL (currentUrl w3) w3 else w3)
      in w4\<lparr>audio := (audio w4)\<lparr>el_src := UrlString []\<rparr>\<rparr>)"

section \<open>Stimuli\<close>

text \<open>
  Everything that makes the player run: a command of a collaborator, an event of the media
  element (which first changes the element, then runs the listener the constructor
  registered), or the browser running a scheduled interval.
\<close>

datatype plain_event = Loadstart | Loadeddata | Canplay | Canplaythrough | Waiting | Seeking | Seeked

fun plain_name :: "plain_event \<Rightarrow> event" where
  "plain_name Loadstart = ''loadstart''"
| "plain_name Loadeddata = ''loadeddata''"
| "plain_name Canplay = ''canplay''"
| "plain_name Canplaythrough = ''canplaythrough''"
| "plain_name Waiting = ''waiting''"
| "plain_name Seeking = ''seeking''"
| "plain_name Seeked = ''seeked''"

datatype stimulus =
    CmdLoadAudio source load_outcome
  | CmdPlay play_outcome
  | CmdPause
  | CmdTogglePlayPause play_outcome
  | CmdSeek real
  | CmdSeekBy real
  | CmdSetPlaybackRate real
  | CmdSetVolume real
  | CmdSetLoopA "real option"
  | CmdSetLoopB "real option"
  | CmdToggleLoop
  | CmdClearLoop
  | CmdResetLoopPoints
  | CmdOn event nat
  | CmdOff event nat
  | CmdDestroy
  | ElPlain plain_event
  | ElLoadedMetadata real
  | ElPlay
  | ElPause
  | ElEnded
  | ElTimeUpdate real
  | ElDurationChange real
  | ElRateChange real
  | ElVolumeChange real
  | ElError "nat option"
  | TimerFired nat

fun step :: "stimulus \<Rightarrow> world \<Rightarrow> world" where
  "step (CmdLoadAudio source outcome) w = snd (loadAudio source outcome w)"
| "step (CmdPlay outcome) w = play outcome w"
| "step CmdPause w = pause w"
| "step (CmdTogglePlayPause outcome) w = togglePlayPause outcome w"
| "step (CmdSeek t) w = seek t w"
| "step (CmdSeekBy d) w = seekBy d w"
| "step (CmdSetPlaybackRate r) w = setPlaybackRate r w"
| "step (CmdSetVolume v) w = setVolume v w"
| "step (CmdSetLoopA t) w = setLoopA t w"
| "step (CmdSetLoopB t) w = setLoopB t w"
| "step CmdToggleLoop w = toggleLoop w"
| "step CmdClearLoop w = clearLoop w"
| "step CmdResetLoopPoints w = resetLoopPoints w"
| "step (CmdOn ev cb) w = on ev cb w"
| "step (CmdOff ev cb) w = off ev cb w"
| "step CmdDestroy w = destroy w"
| "step (ElPlain ev) w = emit (plain_name ev) PNull w"
| "step (ElLoadedMetadata d) w =
     handleLoadedMetadata (w\<lparr>audio := (audio w)\<lparr>el_duration := d\<rparr>\<rparr>)"
| "step ElPlay w = handlePlay (w\<lparr>audio := (audio w)\<lparr>el_paused := False\<rparr>\<rparr>)"
| "step ElPause w = handlePause (w\<lparr>audio := (audio w)\<lparr>el_paused := True\<rparr>\<rparr>)"
| "step ElEnded w = handleEnded w"
| "step (ElTimeUpdate t) w =
     handleTimeUpdate (w\<lparr>audio := (audio w)\<lparr>el_currentTime := t\<rparr>\<rparr>)"
| "step (ElDurationChange d) w =
     handleDurationChange (w\<lparr>audio := (audio w)\<lparr>el_duration := d\<rparr>\<rparr>)"
| "step (ElRateChange r) w =
     handleRateChange (w\<lparr>audio := (audio w)\<lparr>el_playbackRate := r\<rparr>\<rparr>)"
| "step (ElVolumeChange v) w =
     handleVolumeChange (w\<lparr>audio := (audio w)\<lparr>el_volume := v\<rparr>\<rparr>)"
| "step (ElError c) w = handleError (w\<lparr>audio := (audio w)\<lparr>el_error := c\<rparr>\<rparr>)"
| "step (TimerFired i) w = timerFired i w"

fun run :: "stimulus list \<Rightarrow> world \<Rightarrow> world" where
  "run [] w = w"
| "run (x # xs) w = run xs (step x w)"

text \<open>
  Time going by, and nothing else: the browser runs an interval, or the element reports
  its clock.
\<close>

datatype clock = IntervalElapsed nat | Tick real

fun of_clock :: "clock \<Rightarrow> stimulus" where
  "of_clock (IntervalElapsed i) = TimerFired i"
| "of_clock (Tick t) = ElTimeUpdate t"

definition advance :: "clock list \<Rightarrow> world \<Rightarrow> world" where
  "advance ts w = run (map of_clock ts) w"

text \<open>
  The player's handle and the browser's schedule agree: the interval the handle names is
  the only one scheduled, and its identifier is one \<open>setInterval\<close> has given out.
\<close>

fun scheduled :: "nat option \<Rightarrow> nat list" where
  "scheduled None = []"
| "scheduled (Some i) = [i]"

fun given_out :: "nat \<Rightarrow> nat option \<Rightarrow> bool" where
  "given_out n None = True"
| "given_out n (Some i) = (0 < i \<and> i < n)"

definition sched_ok :: "world \<Rightarrow> bool" where
  "sched_ok w =
     (0 < nextTimer w \<and> timers w = scheduled (loopCheckInterval w)
      \<and> given_out (nextTimer w) (loopCheckInterval w))"

definition loop_config :: "world \<Rightarrow> real option \<times> real option \<times> bool" where
  "loop_config w = (loopA w, loopB w, isLooping w)"

definition ordered :: "world \<Rightarrow> bool" where
  "ordered w = (case (loopA w, loopB w) of (Some a, Some b) \<Rightarrow> a \<le> b | _ \<Rightarrow> True)"

text \<open>The same test on the state a callback is given to read.\<close>

definition seen_ordered :: "audio_player \<Rightarrow> bool" where
  "seen_ordered p = (case (loopA p, loopB p) of (Some a, Some b) \<Rightarrow> a \<le> b | _ \<Rightarrow> True)"

text \<open>Clamping into \<open>[0, d]\<close> as the specification words it.\<close>

definition clamp_spec :: "real \<Rightarrow> real \<Rightarrow> real" where
  "clamp_spec t d = (if t < 0 then 0 else if t > d then d else t)"

section \<open>Controls: dragging the progress handle\<close>

text \<open>
  The fields of \<open>Controls\<close> that the drag gesture touches. \<open>progressFillWidth\<close> is what
  \<open>parseFloat\<close> reads from \<open>elements.progressFill.style.width\<close>, \<open>None\<close> being \<open>NaN\<close> (no
  width set). \<open>currentTimeShown\<close> is the number last handed to \<open>formatTime\<close> for
  \<open>elements.currentTime\<close>, \<open>None\<close> being \<open>NaN\<close>. \<open>seekCalls\<close> records the arguments of the
  calls of \<open>player.seek\<close> made by the controls.
\<close>

record controls =
  isDragging :: bool
  progressFillWidth :: "real option"
  currentTimeShown :: "real option"
  seekCalls :: "real option list"

text \<open>A pointer position, with the bounding rectangle of the progress bar at that moment.\<close>

record pointer =
  clientX :: real
  rect_left :: real
  rect_width :: real

text \<open>
  \<open>x / rect.width\<close> with a width of \<open>0\<close> is an infinity, which \<open>clamp\<close> brings to \<open>0\<close> or
  \<open>1\<close>, or \<open>NaN\<close> when \<open>x\<close> is \<open>0\<close> too.
\<close>

definition getPercentageFromMouse :: "pointer \<Rightarrow> real option" where
  "getPercentageFromMouse e =
     (let x = clientX e - rect_left e
      in if rect_width e = 0
         then (if x = 0 then None else if x > 0 then Some 1 else Some 0)
         else Some (clamp (x / rect_width e) 0 1))"

text \<open>A width of \<open>NaN%\<close> is not a CSS value: the assignment leaves the style as it was.\<close>

definition updateProgressVisual :: "real option \<Rightarrow> controls \<Rightarrow> controls" where
  "updateProgressVisual percentage c =
     (case percentage of
        None \<Rightarrow> c
      | Some p \<Rightarrow> c\<lparr>progressFillWidth := Some (clamp p 0 100)\<rparr>)"

definition handleDrag :: "pointer \<Rightarrow> controls \<times> world \<Rightarrow> controls \<times> world" where
  "handleDrag e cw =
     (let c = fst cw; w = snd cw
      in if \<not> isDragging c \<or> duration w = 0 then cw
         else (let percentage = getPercentageFromMouse e;
                   newTime = map_option (\<lambda>p. p * duration w) percentage;
                   c1 = updateProgressVisual percentage c
               in (c1\<lparr>currentTimeShown := newTime\<rparr>, w)))"

definition startDragging :: "pointer \<Rightarrow> controls \<times> world \<Rightarrow> controls \<times> world" where
  "startDragging e cw = handleDrag e ((fst cw)\<lparr>isDragging := True\<rparr>, snd cw)"

text \<open>
  \<open>player.seek\<close> as the controls call it. The element refuses a \<open>currentTime\<close> of \<open>NaN\<close>
  with a \<open>TypeError\<close>.
\<close>

definition callSeek :: "real option \<Rightarrow> controls \<times> world \<Rightarrow> js_error option \<times> controls \<times> world" where
  "callSeek newTime cw =
     (let c = (fst cw)\<lparr>seekCalls := seekCalls (fst cw) @ [newTime]\<rparr>
      in case newTime of
           None \<Rightarrow> (Some TypeError, c, snd cw)
         | Some t \<Rightarrow> (None, c, seek t (snd cw)))"

definition stopDragging :: "controls \<times> world \<Rightarrow> js_error option \<times> controls \<times> world" where
  "stopDragging cw =
     (let c = fst cw; w = snd cw
      in if \<not> isDragging c then (None, cw)
         else (let c1 = c\<lparr>isDragging := False\<rparr>;
                   percentage = map_option (\<lambda>x. x / 100) (progressFillWidth c1);
                   newTime = map_option (\<lambda>p. p * duration w) percentage
               in callSeek newTime (c1, w)))"

definition seekToPosition :: "pointer \<Rightarrow> controls \<times> world \<Rightarrow> js_error option \<times> controls \<times> world" where
  "seekToPosition e cw =
     (if duration (snd cw) = 0 then (None, cw)
      else (let percentage = getPercentageFromMouse e;
                newTime = map_option (\<lambda>p. p * duration (snd cw)) percentage
            in callSeek newTime cw))"

text \<open>The listener of the player's \<open>timeupdate\<close>: idle while dragging.\<close>

definition updateProgress :: "real \<Rightarrow> controls \<times> world \<Rightarrow> controls \<times> world" where
  "updateProgress t cw =
     (if duration (snd cw) = 0 then cw
      else (let percentage = (t / duration (snd cw)) * 100;
                c1 = updateProgressVisual (Some percentage) (fst cw)
            in (c1\<lparr>currentTimeShown := Some t\<rparr>, snd cw)))"

definition onTimeupdate :: "real \<Rightarrow> controls \<times> world \<Rightarrow> controls \<times> world" where
  "onTimeupdate t cw = (if \<not> isDragging (fst cw) then updateProgress t cw else cw)"

section \<open>Reading the record of emitted events\<close>

text \<open>The event names and data, without the state seen.\<close>

definition announced :: "world \<Rightarrow> (event \<times> payload) list" where
  "announced w = map (\<lambda>e. (fst e, fst (snd e))) (emitted w)"

text \<open>The errors handed to the \<open>error\<close> event.\<close>

fun err_of :: "event \<times> payload \<times> audio_player \<Rightarrow> js_error list" where
  "err_of (ev, PErr e, p) = (if ev = ''error'' then [e] else [])"
| "err_of (ev, d, p) = []"

definition reported_errors :: "world \<Rightarrow> js_error list" where
  "reported_errors w = concat (map err_of (emitted w))"

text \<open>The stimuli that end in \<open>clearLoop\<close>: the call itself and a load that succeeds.\<close>

fun clears :: "stimulus \<Rightarrow> bool" where
  "clears (CmdLoadAudio source (MetadataLoaded d)) = (source \<noteq> SrcOther)"
| "clears CmdClearLoop = True"
| "clears CmdResetLoopPoints = True"
| "clears x = False"

fun is_tick :: "clock \<Rightarrow> bool" where
  "is_tick (Tick t) = True"
| "is_tick (IntervalElapsed i) = False"

text \<open>The element never reports a position past the duration \<open>d\<close>.\<close>

fun clock_within :: "real \<Rightarrow> clock \<Rightarrow> bool" where
  "clock_within d (Tick t) = (t \<le> d)"
| "clock_within d (IntervalElapsed i) = True"

text \<open>
  A session: a track of 120 seconds is loaded, the loop is set to \<open>[10, 15]\<close> and switched
  on, playback starts, and the element reports the position \<open>15.05\<close>.
\<close>

definition looping_state :: world where
  "looping_state = run [CmdLoadAudio (SrcString ''track.mp3'') (MetadataLoaded 120),
     CmdSetLoopA (Some 10), CmdSetLoopB (Some 15), CmdToggleLoop,
     CmdPlay PlayResolved, ElPlay, ElTimeUpdate 15.05] new_player"

text \<open>
  The same session with \<open>loopA = loopB = 10\<close> (\<open>tight_loop_state\<close>), and a track of 120
  seconds with a loop from \<open>-3\<close> to \<open>500\<close>, switched on and playing, the
  element at the end of the track.
\<close>

definition tight_loop_state :: world where
  "tight_loop_state = run [CmdLoadAudio (SrcString ''track.mp3'') (MetadataLoaded 120),
     CmdSetLoopA (Some 10), CmdSetLoopB (Some 10), CmdToggleLoop,
     CmdPlay PlayResolved, ElPlay, ElTimeUpdate 10.05] new_player"

definition past_end_state :: world where
  "past_end_state = run [CmdSetLoopA (Some (-3)), CmdSetLoopB (Some 500), CmdToggleLoop, ElPlay,
     ElTimeUpdate 120] (new_player\<lparr>duration := 120\<rparr>)"

text \<open>
  States and inputs for the examples: an observer of \<open>loopaset\<close> while \<open>setLoopA(20)\<close> meets
  \<open>loopB = 10\<close>; the loop switched on while playing; two files loaded one after the other;
  controls at rest, and a pointer in the middle of a progress bar 100 pixels wide.
\<close>

definition swapping_state :: world where
  "swapping_state = run [CmdOn ''loopaset'' 0, CmdSetLoopB (Some 10), CmdSetLoopA (Some 20)] new_player"

definition toggled_state :: world where
  "toggled_state = run [CmdSetLoopA (Some 10), CmdSetLoopB (Some 15), ElPlay, CmdToggleLoop] new_player"

definition two_loads :: "stimulus list" where
  "two_loads = [CmdLoadAudio (SrcFile (File ''first.mp3'')) (MetadataLoaded 100),
                CmdLoadAudio (SrcFile (File ''second.mp3'')) (MetadataLoaded 50)]"

definition idle_controls :: controls where
  "idle_controls = \<lparr> isDragging = False, progressFillWidth = Some 0, currentTimeShown = Some 0,
     seekCalls = [] \<rparr>"

definition halfway :: pointer where
  "halfway = \<lparr> clientX = 50, rect_left = 0, rect_width = 100 \<rparr>"

section \<open>Basic facts\<close>

lemmas player_defs = new_player_def new_element_def emit_def snapshot_def seek_def seekBy_def
  clamp_def setPlaybackRate_def setVolume_def stopLoopCheck_def loopCheck_def startLoopCheck_def
  timerFired_def setLoopA_def setLoopB_def toggleLoop_def clearLoop_def resetLoopPoints_def
  play_def pause_def togglePlayPause_def handleLoadedMetadata_def handlePlay_def handlePause_def
  handleEnded_def handleTimeUpdate_def handleDurationChange_def handleRateChange_def
  handleVolumeChange_def handleError_def bindSource_def loadAudio_def destroy_def on_def off_def
  audio_player.truncate_def

lemma looping_state_fields:
  "timers looping_state = [2]" "loopA looping_state = Some 10" "loopB looping_state = Some 15"
  "isLooping looping_state" "currentTime looping_state = 15.05" "isPlaying looping_state"
  "count_emitted ''looped'' looping_state = 0" "duration looping_state = 120"
  by (simp_all add: looping_state_def player_defs Let_def count_emitted_def)

lemma count_emitted_emit:
  "count_emitted ev (emit ev' d w) = count_emitted ev w + (if ev' = ev then 1 else 0)"
  by (simp add: count_emitted_def emit_def)

lemma count_emitted_seek: "count_emitted ev (seek t w) = count_emitted ev w"
  by (simp add: count_emitted_def seek_def)

section \<open>The loop check fires on every interval\<close>

lemma loopCheck_fires:
  assumes "isLooping w" "currentTime w \<ge> to_number (loopB w)"
  shows "loopCheck w = emit ''looped'' PNull (seek (to_number (loopA w)) w)"
  using assms by (simp add: loopCheck_def)

lemma loopCheck_idle:
  assumes "\<not> isLooping w \<or> currentTime w < to_number (loopB w)"
  shows "loopCheck w = w"
  using assms by (auto simp add: loopCheck_def)

lemma fired_repeatedly:
  assumes "i \<in> set (timers w)" "isLooping w" "currentTime w \<ge> to_number (loopB w)"
  shows "count_emitted ''looped'' (advance (replicate n (IntervalElapsed i)) w)
         = count_emitted ''looped'' w + n"
  using assms
proof (induction n arbitrary: w)
  case 0
  then show ?case by (simp add: advance_def)
next
  case (Suc n)
  have fire: "timerFired i w = emit ''looped'' PNull (seek (to_number (loopA w)) w)"
    using Suc.prems by (simp add: timerFired_def loopCheck_fires)
  let ?w = "timerFired i w"
  have keep: "i \<in> set (timers ?w)" "isLooping ?w" "currentTime ?w \<ge> to_number (loopB ?w)"
    using Suc.prems by (simp_all add: fire emit_def seek_def)
  have "count_emitted ''looped'' (advance (replicate n (IntervalElapsed i)) ?w)
        = count_emitted ''looped'' ?w + n"
    by (rule Suc.IH [OF keep])
  moreover have "count_emitted ''looped'' ?w = count_emitted ''looped'' w + 1"
    by (simp add: fire count_emitted_emit count_emitted_seek)
  ultimately show ?case by (simp add: advance_def)
qed

text \<open>
  C1, as the claim states it, fails. In \<open>looping_state\<close> the position \<open>15.05\<close> has crossed
  \<open>loopB = 15\<close> once. The interval runs twice before the element reports a new position
  (the seek it was asked for is still under way): \<open>looped\<close> is emitted twice for that one
  crossing. In \<open>tight_loop_state\<close>, where \<open>loopA = loopB = 10\<close>, the interval runs, the
  element reports the destination of the seek, \<open>10\<close>, and the next run of the interval
  emits \<open>looped\<close> again. Nothing in the player remembers that it has just looped.
\<close>

theorem C1_counterexample:
  "count_emitted ''looped'' (advance [IntervalElapsed 2, IntervalElapsed 2] looping_state) = 2
   \<and> el_currentTime (audio (advance [IntervalElapsed 2] tight_loop_state)) = 10
   \<and> count_emitted ''looped''
        (advance [IntervalElapsed 2, Tick 10, IntervalElapsed 2] tight_loop_state) = 2"
  by (simp add: looping_state_def tight_loop_state_def advance_def player_defs Let_def
      count_emitted_def)

text \<open>
  C1, amended. An interval of the player that runs while \<open>isLooping\<close> holds and the stored
  \<open>currentTime\<close> is at or past \<open>loopB\<close> seeks to \<open>loopA\<close> (clamped into the track) and emits
  \<open>looped\<close> once; it leaves the stored \<open>currentTime\<close> as it is, so \<open>n\<close> runs in a row emit
  \<open>looped\<close> \<open>n\<close> times. A run that finds the stored \<open>currentTime\<close> below \<open>loopB\<close> does nothing.
\<close>

theorem C1_loop_check_every_interval:
  "(i \<in> set (timers w) \<and> isLooping w \<and> currentTime w \<ge> to_number (loopB w) \<longrightarrow>
      timerFired i w = emit ''looped'' PNull (seek (to_number (loopA w)) w)
      \<and> el_currentTime (audio (timerFired i w)) = clamp (to_number (loopA w)) 0 (duration w)
      \<and> count_emitted ''looped'' (timerFired i w) = count_emitted ''looped'' w + 1
      \<and> currentTime (timerFired i w) = currentTime w
      \<and> (\<forall>n. count_emitted ''looped'' (advance (replicate n (IntervalElapsed i)) w)
              = count_emitted ''looped'' w + n))
   \<and> (currentTime w < to_number (loopB w) \<longrightarrow> timerFired i w = w)"
proof (intro conjI impI allI)
  assume h: "i \<in> set (timers w) \<and> isLooping w \<and> currentTime w \<ge> to_number (loopB w)"
  then show fire: "timerFired i w = emit ''looped'' PNull (seek (to_number (loopA w)) w)"
    by (simp add: timerFired_def loopCheck_fires)
  show "el_currentTime (audio (timerFired i w)) = clamp (to_number (loopA w)) 0 (duration w)"
    by (simp add: fire emit_def seek_def)
  show "count_emitted ''looped'' (timerFired i w) = count_emitted ''looped'' w + 1"
    by (simp add: fire count_emitted_emit count_emitted_seek)
  show "currentTime (timerFired i w) = currentTime w"
    by (simp add: fire emit_def seek_def)
  fix n
  show "count_emitted ''looped'' (advance (replicate n (IntervalElapsed i)) w)
        = count_emitted ''looped'' w + n"
    using h by (simp add: fired_repeatedly)
next
  assume "currentTime w < to_number (loopB w)"
  then show "timerFired i w = w"
    by (simp add: timerFired_def loopCheck_idle)
qed

theorem C1_loop_check_every_interval_witness:
  "el_currentTime (audio (timerFired 2 looping_state)) = 10
   \<and> count_emitted ''looped'' (timerFired 2 looping_state) = 1
   \<and> timerFired 2 (step (ElTimeUpdate 10) (timerFired 2 looping_state))
       = step (ElTimeUpdate 10) (timerFired 2 looping_state)"
proof -
  have h: "2 \<in> set (timers looping_state) \<and> isLooping looping_state
           \<and> currentTime looping_state \<ge> to_number (loopB looping_state)"
    by (simp add: looping_state_fields)
  let ?w = "step (ElTimeUpdate 10) (timerFired 2 looping_state)"
  have fire: "timerFired 2 looping_state
      = emit ''looped'' PNull (seek (to_number (loopA looping_state)) looping_state)"
    using C1_loop_check_every_interval [of 2 looping_state] h by blast
  have below: "currentTime ?w < to_number (loopB ?w)"
    by (simp add: fire emit_def seek_def handleTimeUpdate_def looping_state_fields)
  have "timerFired 2 ?w = ?w"
    using C1_loop_check_every_interval [of 2 ?w] below by blast
  moreover have "el_currentTime (audio (timerFired 2 looping_state))
      = clamp (to_number (loopA looping_state)) 0 (duration looping_state)"
    using C1_loop_check_every_interval [of 2 looping_state] h by blast
  moreover have "count_emitted ''looped'' (timerFired 2 looping_state)
      = count_emitted ''looped'' looping_state + 1"
    using C1_loop_check_every_interval [of 2 looping_state] h by blast
  ultimately show ?thesis by (simp add: looping_state_fields clamp_def)
qed

section \<open>Loop points are swapped into order\<close>

lemma ordered_setLoopA: "ordered (setLoopA t w)"
  by (cases "loopB w") (auto simp add: ordered_def setLoopA_def emit_def Let_def split: option.splits)

lemma ordered_setLoopB: "ordered (setLoopB t w)"
  by (cases "loopA w") (auto simp add: ordered_def setLoopB_def emit_def Let_def split: option.splits)

text \<open>
  C3. For \<open>a > b\<close>: \<open>setLoopA(a)\<close> with \<open>loopB = b\<close> leaves \<open>loopA = b\<close> and \<open>loopB = a\<close>, and
  after \<open>loopaset\<close> it emits \<open>loopbset\<close> for the bound that took the new time; \<open>setLoopB(b)\<close>
  with \<open>loopA = a\<close> does the same with the roles exchanged. After either call, from any
  state and with any argument, two bounds that are both set are in order.
\<close>

theorem C3_swap:
  assumes "a > b"
  shows "loopA (setLoopA (Some a) (w\<lparr>loopB := Some b\<rparr>)) = Some b
       \<and> loopB (setLoopA (Some a) (w\<lparr>loopB := Some b\<rparr>)) = Some a
       \<and> announced (setLoopA (Some a) (w\<lparr>loopB := Some b\<rparr>))
           = announced w @ [(''loopaset'', PNum a), (''loopbset'', PNum a)]
       \<and> loopA (setLoopB (Some b) (w\<lparr>loopA := Some a\<rparr>)) = Some b
       \<and> loopB (setLoopB (Some b) (w\<lparr>loopA := Some a\<rparr>)) = Some a
       \<and> announced (setLoopB (Some b) (w\<lparr>loopA := Some a\<rparr>))
           = announced w @ [(''loopbset'', PNum b), (''loopaset'', PNum b)]
       \<and> ordered (setLoopA t v) \<and> ordered (setLoopB t v)"
proof -
  have "loopA (setLoopA (Some a) (w\<lparr>loopB := Some b\<rparr>)) = Some b
       \<and> loopB (setLoopA (Some a) (w\<lparr>loopB := Some b\<rparr>)) = Some a
       \<and> announced (setLoopA (Some a) (w\<lparr>loopB := Some b\<rparr>))
           = announced w @ [(''loopaset'', PNum a), (''loopbset'', PNum a)]"
    using assms by (simp add: setLoopA_def emit_def Let_def announced_def)
  moreover have "loopA (setLoopB (Some b) (w\<lparr>loopA := Some a\<rparr>)) = Some b
       \<and> loopB (setLoopB (Some b) (w\<lparr>loopA := Some a\<rparr>)) = Some a
       \<and> announced (setLoopB (Some b) (w\<lparr>loopA := Some a\<rparr>))
           = announced w @ [(''loopbset'', PNum b), (''loopaset'', PNum b)]"
    using assms by (simp add: setLoopB_def emit_def Let_def announced_def)
  moreover have "ordered (setLoopA t v)" by (rule ordered_setLoopA)
  moreover have "ordered (setLoopB t v)" by (rule ordered_setLoopB)
  ultimately show ?thesis by blast
qed

theorem C3_swap_witness:
  "loopA (setLoopA (Some 20) (new_player\<lparr>loopB := Some 10\<rparr>)) = Some 10
   \<and> loopB (setLoopA (Some 20) (new_player\<lparr>loopB := Some 10\<rparr>)) = Some 20
   \<and> loopA (setLoopB (Some 10) (new_player\<lparr>loopA := Some 20\<rparr>)) = Some 10
   \<and> loopB (setLoopB (Some 10) (new_player\<lparr>loopA := Some 20\<rparr>)) = Some 20"
proof -
  have h: "(20::real) > 10" by simp
  show ?thesis using C3_swap [OF h, of new_player None new_player] by simp
qed

section \<open>Seeking clamps into the track\<close>

text \<open>
  C6. With a duration that is not negative, \<open>seek(t)\<close> sets the position of the element to
  \<open>clamp(t, 0, duration)\<close>, which is \<open>0\<close> below \<open>0\<close>, the duration above it and \<open>t\<close> between;
  the stored \<open>currentTime\<close> waits for the next \<open>timeupdate\<close>. \<open>seekBy(d)\<close> is
  \<open>seek(currentTime + d)\<close>, so it clamps the same way.
\<close>

theorem C6_seek_clamps:
  assumes "0 \<le> duration w"
  shows "el_currentTime (audio (seek t w)) = clamp t 0 (duration w)
   \<and> clamp t 0 (duration w) = clamp_spec t (duration w)
   \<and> 0 \<le> el_currentTime (audio (seek t w))
   \<and> el_currentTime (audio (seek t w)) \<le> duration w
   \<and> currentTime (seek t w) = currentTime w
   \<and> seekBy d w = seek (currentTime w + d) w
   \<and> el_currentTime (audio (seekBy d w)) = clamp_spec (currentTime w + d) (duration w)"
  using assms by (simp add: seek_def seekBy_def clamp_def clamp_spec_def min_def max_def)

theorem C6_seek_clamps_witness:
  "el_currentTime (audio (seek (-5) (new_player\<lparr>duration := 120\<rparr>))) = 0
   \<and> el_currentTime (audio (seek 1000 (new_player\<lparr>duration := 120\<rparr>))) = 120
   \<and> el_currentTime (audio (seekBy (-30) (new_player\<lparr>duration := 120, currentTime := 10\<rparr>))) = 0
   \<and> el_currentTime (audio (seekBy 30 (new_player\<lparr>duration := 120, currentTime := 100\<rparr>))) = 120"
proof -
  have h1: "0 \<le> duration (new_player\<lparr>duration := 120\<rparr>)" by simp
  have h2: "0 \<le> duration (new_player\<lparr>duration := 120, currentTime := 10\<rparr>)" by simp
  have h3: "0 \<le> duration (new_player\<lparr>duration := 120, currentTime := 100\<rparr>)" by simp
  have "el_currentTime (audio (seek (-5) (new_player\<lparr>duration := 120\<rparr>))) = 0"
    using C6_seek_clamps [OF h1, of "-5" 0] by (simp add: clamp_spec_def)
  moreover have "el_currentTime (audio (seek 1000 (new_player\<lparr>duration := 120\<rparr>))) = 120"
    using C6_seek_clamps [OF h1, of 1000 0] by (simp add: clamp_spec_def)
  moreover have "el_currentTime (audio (seekBy (-30) (new_player\<lparr>duration := 120, currentTime := 10\<rparr>))) = 0"
    using C6_seek_clamps [OF h2, of "-20" "-30"] by (simp add: clamp_spec_def)
  moreover have "el_currentTime (audio (seekBy 30 (new_player\<lparr>duration := 120, currentTime := 100\<rparr>))) = 120"
    using C6_seek_clamps [OF h3, of 130 30] by (simp add: clamp_spec_def)
  ultimately show ?thesis by simp
qed

section \<open>Loop points are stored as given\<close>

lemma setLoopA_stores:
  "loop_config (setLoopA (Some t) w) =
     (if loopB w \<noteq> None \<and> t > to_number (loopB w)
      then (loopB w, Some t, isLooping w) else (Some t, loopB w, isLooping w))"
  by (simp add: setLoopA_def emit_def Let_def loop_config_def)

lemma setLoopB_stores:
  "loop_config (setLoopB (Some t) w) =
     (if loopA w \<noteq> None \<and> t < to_number (loopA w)
      then (Some t, loopA w, isLooping w) else (loopA w, Some t, isLooping w))"
  by (simp add: setLoopB_def emit_def Let_def loop_config_def)

lemma tick_keeps:
  "timers (step (ElTimeUpdate t) w) = timers w" "isLooping (step (ElTimeUpdate t) w) = isLooping w"
  "loopA (step (ElTimeUpdate t) w) = loopA w" "loopB (step (ElTimeUpdate t) w) = loopB w"
  "currentTime (step (ElTimeUpdate t) w) = t" "duration (step (ElTimeUpdate t) w) = duration w"
  "count_emitted ''looped'' (step (ElTimeUpdate t) w) = count_emitted ''looped'' w"
  by (simp_all add: handleTimeUpdate_def emit_def count_emitted_def Let_def)

lemma advance_Nil: "advance [] w = w"
  by (simp add: advance_def)

lemma advance_Cons: "advance (c # ts) w = advance ts (step (of_clock c) w)"
  by (simp add: advance_def)

lemma unreached:
  assumes "loopB w = Some b" "duration w < b" "currentTime w \<le> duration w"
    "list_all (clock_within (duration w)) ts"
  shows "advance ts w = advance (filter is_tick ts) w
       \<and> count_emitted ''looped'' (advance ts w) = count_emitted ''looped'' w"
  using assms
proof (induction ts arbitrary: w)
  case Nil
  then show ?case by (simp add: advance_Nil)
next
  case (Cons c ts)
  show ?case
  proof (cases c)
    case (IntervalElapsed i)
    have idle: "step (of_clock (IntervalElapsed i)) w = w"
      using Cons.prems by (simp add: timerFired_def loopCheck_def)
    have "advance ts w = advance (filter is_tick ts) w
       \<and> count_emitted ''looped'' (advance ts w) = count_emitted ''looped'' w"
      using Cons.prems by (intro Cons.IH) simp_all
    then show ?thesis
      using IntervalElapsed by (auto simp add: advance_Cons idle simp del: of_clock.simps)
  next
    case (Tick t)
    let ?w = "step (ElTimeUpdate t) w"
    have "advance ts ?w = advance (filter is_tick ts) ?w
       \<and> count_emitted ''looped'' (advance ts ?w) = count_emitted ''looped'' ?w"
      using Cons.prems Tick by (intro Cons.IH) (simp_all add: tick_keeps del: step.simps)
    then show ?thesis
      using Tick by (auto simp add: advance_Cons tick_keeps simp del: step.simps)
  qed
qed

text \<open>
  C10. \<open>setLoopA(t)\<close> and \<open>setLoopB(t)\<close> store \<open>t\<close> as it is, whatever the duration, in the
  bound named or, after the swap, in the other one. With \<open>loopB\<close> past the duration, and an
  element that never reports a position past the duration, the runs of the interval do
  nothing at all: the state is the one the reports of the element alone produce, and no
  \<open>looped\<close> is emitted.
\<close>

theorem C10_unclamped:
  "loop_config (setLoopA (Some t) w) =
     (if loopB w \<noteq> None \<and> t > to_number (loopB w)
      then (loopB w, Some t, isLooping w) else (Some t, loopB w, isLooping w))
   \<and> loop_config (setLoopB (Some t) w) =
     (if loopA w \<noteq> None \<and> t < to_number (loopA w)
      then (Some t, loopA w, isLooping w) else (loopA w, Some t, isLooping w))
   \<and> loop_config (setLoopA (Some t) (w\<lparr>duration := d\<rparr>)) = loop_config (setLoopA (Some t) w)
   \<and> loop_config (setLoopB (Some t) (w\<lparr>duration := d\<rparr>)) = loop_config (setLoopB (Some t) w)
   \<and> (loopB w = Some b \<and> duration w < b \<and> currentTime w \<le> duration w
        \<and> list_all (clock_within (duration w)) ts \<longrightarrow>
      advance ts w = advance (filter is_tick ts) w
      \<and> count_emitted ''looped'' (advance ts w) = count_emitted ''looped'' w)"
proof (intro conjI impI)
  show "loop_config (setLoopA (Some t) w) =
     (if loopB w \<noteq> None \<and> t > to_number (loopB w)
      then (loopB w, Some t, isLooping w) else (Some t, loopB w, isLooping w))"
    by (rule setLoopA_stores)
  show "loop_config (setLoopB (Some t) w) =
     (if loopA w \<noteq> None \<and> t < to_number (loopA w)
      then (Some t, loopA w, isLooping w) else (loopA w, Some t, isLooping w))"
    by (rule setLoopB_stores)
  show "loop_config (setLoopA (Some t) (w\<lparr>duration := d\<rparr>)) = loop_config (setLoopA (Some t) w)"
    by (simp add: setLoopA_stores)
  show "loop_config (setLoopB (Some t) (w\<lparr>duration := d\<rparr>)) = loop_config (setLoopB (Some t) w)"
    by (simp add: setLoopB_stores)
next
  assume h: "loopB w = Some b \<and> duration w < b \<and> currentTime w \<le> duration w
        \<and> list_all (clock_within (duration w)) ts"
  then show "advance ts w = advance (filter is_tick ts) w"
    using unreached [of w b ts] by blast
  from h show "count_emitted ''looped'' (advance ts w) = count_emitted ''looped'' w"
    using unreached [of w b ts] by blast
qed

theorem C10_unclamped_witness:
  "loop_config (setLoopB (Some 500) (setLoopA (Some (-3)) (new_player\<lparr>duration := 120\<rparr>)))
     = (Some (-3), Some 500, False)
   \<and> timers past_end_state = [1]
   \<and> count_emitted ''looped'' (advance [IntervalElapsed 1, Tick 120, IntervalElapsed 1] past_end_state) = 0"
proof -
  have f: "loopB past_end_state = Some 500 \<and> duration past_end_state < 500
      \<and> currentTime past_end_state \<le> duration past_end_state
      \<and> list_all (clock_within (duration past_end_state)) [IntervalElapsed 1, Tick 120, IntervalElapsed 1]"
    by (simp add: past_end_state_def player_defs Let_def)
  have "count_emitted ''looped'' (advance [IntervalElapsed 1, Tick 120, IntervalElapsed 1] past_end_state)
      = count_emitted ''looped'' past_end_state"
    using C10_unclamped [of 0 past_end_state 0 500 "[IntervalElapsed 1, Tick 120, IntervalElapsed 1]"] f
    by blast
  moreover have "count_emitted ''looped'' past_end_state = 0" "timers past_end_state = [1]"
    by (simp_all add: past_end_state_def player_defs Let_def count_emitted_def)
  moreover have "loop_config (setLoopB (Some 500) (setLoopA (Some (-3)) (new_player\<lparr>duration := 120\<rparr>)))
     = (Some (-3), Some 500, False)"
    using C10_unclamped [of 500 "setLoopA (Some (-3)) (new_player\<lparr>duration := 120\<rparr>)"]
      C10_unclamped [of "-3" "new_player\<lparr>duration := 120\<rparr>"]
    by (simp add: loop_config_def new_player_def)
  ultimately show ?thesis by simp
qed

section \<open>What clears the loop points\<close>

lemma load_succeeds:
  assumes "source \<noteq> SrcOther"
  shows "fst (loadAudio source (MetadataLoaded d) w) = None"
    and "loop_config (snd (loadAudio source (MetadataLoaded d) w)) = (None, None, False)"
  using assms
  by (cases source; simp add: loadAudio_def bindSource_def Let_def handleLoadedMetadata_def
      resetLoopPoints_def clearLoop_def emit_def stopLoopCheck_def loop_config_def
      split: option.splits)+

lemma load_fails:
  assumes "fst (loadAudio source outcome w) \<noteq> None"
  shows "loop_config (snd (loadAudio source outcome w)) = loop_config w"
  using assms
  by (cases source; cases outcome; simp add: loadAudio_def bindSource_def Let_def handleLoadedMetadata_def
      handleError_def resetLoopPoints_def clearLoop_def emit_def stopLoopCheck_def loop_config_def
      split: option.splits)

lemma load_fails_iff:
  "fst (loadAudio source outcome w) \<noteq> None \<longleftrightarrow> source = SrcOther \<or> (\<exists>c. outcome = LoadFailed c)"
  by (cases source; cases outcome; simp add: loadAudio_def bindSource_def Let_def)

lemma stopLoopCheck_keeps:
  "loopA (stopLoopCheck w) = loopA w" "loopB (stopLoopCheck w) = loopB w"
  "isLooping (stopLoopCheck w) = isLooping w" "emitted (stopLoopCheck w) = emitted w"
  "isPlaying (stopLoopCheck w) = isPlaying w" "currentTime (stopLoopCheck w) = currentTime w"
  "duration (stopLoopCheck w) = duration w" "nextTimer (stopLoopCheck w) = nextTimer w"
  by (simp_all add: stopLoopCheck_def split: option.splits)

lemma startLoopCheck_keeps:
  "loopA (startLoopCheck w) = loopA w" "loopB (startLoopCheck w) = loopB w"
  "isLooping (startLoopCheck w) = isLooping w" "emitted (startLoopCheck w) = emitted w"
  by (simp_all add: startLoopCheck_def Let_def stopLoopCheck_keeps)

lemma revokeObjectURL_keeps:
  "loopA (revokeObjectURL u w) = loopA w" "loopB (revokeObjectURL u w) = loopB w"
  "isLooping (revokeObjectURL u w) = isLooping w" "emitted (revokeObjectURL u w) = emitted w"
  "timers (revokeObjectURL u w) = timers w" "nextTimer (revokeObjectURL u w) = nextTimer w"
  "loopCheckInterval (revokeObjectURL u w) = loopCheckInterval w"
  "eventListeners (revokeObjectURL u w) = eventListeners w"
  "currentUrl (revokeObjectURL u w) = currentUrl w" "currentFile (revokeObjectURL u w) = currentFile w"
  "audio (revokeObjectURL u w) = audio w"
  by (induction u w rule: revokeObjectURL.induct; simp)+

lemma destroy_keeps:
  "loopA (destroy w) = loopA w" "loopB (destroy w) = loopB w"
  "isLooping (destroy w) = isLooping w" "emitted (destroy w) = emitted w"
  by (simp_all add: destroy_def pause_def Let_def stopLoopCheck_keeps revokeObjectURL_keeps)

lemma bounds_stay_A:
  assumes "\<not> clears x" "loopA w \<noteq> None"
  shows "loopA (step x w) \<noteq> None"
proof (cases x)
  case (CmdLoadAudio source outcome)
  then show ?thesis using assms
    by (cases source; cases outcome; simp add: loadAudio_def bindSource_def Let_def handleError_def emit_def)
next
  case (CmdSetLoopA t)
  then show ?thesis by (simp add: setLoopA_def emit_def Let_def)
next
  case (CmdSetLoopB t)
  then show ?thesis using assms by (auto simp add: setLoopB_def emit_def Let_def)
next
  case (TimerFired i)
  then show ?thesis using assms by (simp add: timerFired_def loopCheck_def emit_def seek_def)
next
  case CmdDestroy
  then show ?thesis using assms by (simp add: destroy_keeps)
qed (use assms in \<open>simp_all add: player_defs Let_def stopLoopCheck_keeps startLoopCheck_keeps
      split: play_outcome.splits option.splits\<close>)

lemma bounds_stay_B:
  assumes "\<not> clears x" "loopB w \<noteq> None"
  shows "loopB (step x w) \<noteq> None"
proof (cases x)
  case (CmdLoadAudio source outcome)
  then show ?thesis using assms
    by (cases source; cases outcome; simp add: loadAudio_def bindSource_def Let_def handleError_def emit_def)
next
  case (CmdSetLoopA t)
  then show ?thesis using assms by (auto simp add: setLoopA_def emit_def Let_def)
next
  case (CmdSetLoopB t)
  then show ?thesis by (simp add: setLoopB_def emit_def Let_def)
next
  case (TimerFired i)
  then show ?thesis using assms by (simp add: timerFired_def loopCheck_def emit_def seek_def)
next
  case CmdDestroy
  then show ?thesis using assms by (simp add: destroy_keeps)
qed (use assms in \<open>simp_all add: player_defs Let_def stopLoopCheck_keeps startLoopCheck_keeps
      split: play_outcome.splits option.splits\<close>)

lemma cleared_by_clears:
  assumes "clears x"
  shows "loop_config (step x w) = (None, None, False)"
proof (cases x)
  case (CmdLoadAudio source outcome)
  then show ?thesis using assms load_succeeds(2) [of source]
    by (cases outcome) simp_all
qed (use assms in \<open>simp_all add: resetLoopPoints_def clearLoop_def emit_def stopLoopCheck_keeps
      loop_config_def Let_def\<close>)

text \<open>
  C5. A load that succeeds (a \<open>File\<close> or a string, and the metadata arrives) throws nothing
  and leaves \<open>loopA = loopB = null\<close> and \<open>isLooping = false\<close>, from any state. A load that
  throws (a source of another kind, or the element's \<open>error\<close>) leaves the three as they
  were, and so do the element's \<open>error\<close> event and a rejected \<open>play\<close>. \<open>clearLoop\<close> clears
  them, and no stimulus other than \<open>clearLoop\<close>, \<open>resetLoopPoints\<close> (which is \<open>clearLoop\<close>)
  and a load that succeeds turns a bound that is set into \<open>null\<close>; each of these three does.
\<close>

theorem C5_loop_config_and_load:
  "(source \<noteq> SrcOther \<longrightarrow>
      fst (loadAudio source (MetadataLoaded d) w) = None
      \<and> loop_config (snd (loadAudio source (MetadataLoaded d) w)) = (None, None, False))
   \<and> (fst (loadAudio source outcome w) \<noteq> None \<longrightarrow>
      loop_config (snd (loadAudio source outcome w)) = loop_config w)
   \<and> (fst (loadAudio source outcome w) \<noteq> None
        \<longleftrightarrow> source = SrcOther \<or> (\<exists>c. outcome = LoadFailed c))
   \<and> loop_config (step (ElError c) w) = loop_config w
   \<and> loop_config (step (CmdPlay (PlayRejected e)) w) = loop_config w
   \<and> loop_config (clearLoop w) = (None, None, False)
   \<and> (\<not> clears x \<and> loopA w \<noteq> None \<longrightarrow> loopA (step x w) \<noteq> None)
   \<and> (\<not> clears x \<and> loopB w \<noteq> None \<longrightarrow> loopB (step x w) \<noteq> None)
   \<and> (clears x \<longrightarrow> loop_config (step x w) = (None, None, False))"
proof (intro conjI impI)
  assume "source \<noteq> SrcOther"
  then show "fst (loadAudio source (MetadataLoaded d) w) = None"
    and "loop_config (snd (loadAudio source (MetadataLoaded d) w)) = (None, None, False)"
    by (rule load_succeeds)+
next
  assume "fst (loadAudio source outcome w) \<noteq> None"
  then show "loop_config (snd (loadAudio source outcome w)) = loop_config w"
    by (rule load_fails)
next
  show "fst (loadAudio source outcome w) \<noteq> None
        \<longleftrightarrow> source = SrcOther \<or> (\<exists>c. outcome = LoadFailed c)"
    by (rule load_fails_iff)
  show "loop_config (step (ElError c) w) = loop_config w"
    by (simp add: handleError_def emit_def loop_config_def)
  show "loop_config (step (CmdPlay (PlayRejected e)) w) = loop_config w"
    by (simp add: play_def emit_def loop_config_def)
  show "loop_config (clearLoop w) = (None, None, False)"
    by (simp add: clearLoop_def emit_def stopLoopCheck_keeps loop_config_def Let_def)
next
  assume "\<not> clears x \<and> loopA w \<noteq> None"
  then show "loopA (step x w) \<noteq> None" by (simp add: bounds_stay_A del: step.simps)
next
  assume "\<not> clears x \<and> loopB w \<noteq> None"
  then show "loopB (step x w) \<noteq> None" by (simp add: bounds_stay_B del: step.simps)
next
  assume "clears x"
  then show "loop_config (step x w) = (None, None, False)" by (rule cleared_by_clears)
qed

theorem C5_loop_config_and_load_witness:
  "loop_config (snd (loadAudio (SrcFile (File ''next.mp3'')) (MetadataLoaded 200) looping_state))
     = (None, None, False)
   \<and> loop_config (snd (loadAudio (SrcFile (File ''next.xyz'')) (LoadFailed 4) looping_state))
     = (Some 10, Some 15, True)
   \<and> loopA (step CmdDestroy looping_state) \<noteq> None"
proof -
  have a: "SrcFile (File ''next.mp3'') \<noteq> SrcOther" by simp
  have b: "fst (loadAudio (SrcFile (File ''next.xyz'')) (LoadFailed 4) looping_state) \<noteq> None"
    using C5_loop_config_and_load [of "SrcFile (File ''next.xyz'')" 0 looping_state "LoadFailed 4"]
    by simp
  have c: "\<not> clears CmdDestroy \<and> loopA looping_state \<noteq> None"
    by (simp add: looping_state_fields)
  have "loop_config (snd (loadAudio (SrcFile (File ''next.mp3'')) (MetadataLoaded 200) looping_state))
     = (None, None, False)"
    using C5_loop_config_and_load [of "SrcFile (File ''next.mp3'')" 200 looping_state] a by blast
  moreover have "loop_config (snd (loadAudio (SrcFile (File ''next.xyz'')) (LoadFailed 4) looping_state))
     = loop_config looping_state"
    using C5_loop_config_and_load [of "SrcFile (File ''next.xyz'')" 0 looping_state "LoadFailed 4"] b
    by blast
  moreover have "loopA (step CmdDestroy looping_state) \<noteq> None"
    using C5_loop_config_and_load [of SrcOther 0 looping_state "LoadFailed 4" None TypeError CmdDestroy] c
    by blast
  ultimately show ?thesis by (simp add: loop_config_def looping_state_fields)
qed

section \<open>The schedule of the loop check\<close>

lemma stopLoopCheck_twice: "stopLoopCheck (stopLoopCheck w) = stopLoopCheck w"
  by (simp add: stopLoopCheck_def split: option.splits)

lemma stopLoopCheck_handle: "sched_ok w \<Longrightarrow> loopCheckInterval (stopLoopCheck w) = None"
  by (auto simp add: stopLoopCheck_def sched_ok_def split: option.splits)

lemma stopLoopCheck_timers: "sched_ok w \<Longrightarrow> timers (stopLoopCheck w) = []"
  by (auto simp add: stopLoopCheck_def sched_ok_def split: option.splits)

lemma sched_ok_stopLoopCheck: "sched_ok w \<Longrightarrow> sched_ok (stopLoopCheck w)"
  by (auto simp add: stopLoopCheck_def sched_ok_def split: option.splits)

lemma sched_ok_new: "sched_ok new_player"
  by (simp add: sched_ok_def new_player_def)

lemma sched_ok_startLoopCheck: "sched_ok w \<Longrightarrow> sched_ok (startLoopCheck w)"
  by (auto simp add: startLoopCheck_def stopLoopCheck_def sched_ok_def Let_def split: option.splits)

lemma sched_ok_cong:
  assumes "timers v = timers w" "loopCheckInterval v = loopCheckInterval w" "nextTimer v = nextTimer w"
  shows "sched_ok v = sched_ok w"
  using assms by (simp add: sched_ok_def)

lemma sched_ok_emit: "sched_ok (emit ev d w) = sched_ok w"
  by (rule sched_ok_cong) (simp_all add: emit_def)

lemma sched_ok_seek: "sched_ok (seek t w) = sched_ok w"
  by (rule sched_ok_cong) (simp_all add: seek_def)

lemma sched_ok_pause: "sched_ok w \<Longrightarrow> sched_ok (pause w)"
  unfolding pause_def by (rule sched_ok_stopLoopCheck) (simp add: sched_ok_def)

lemma sched_ok_play: "sched_ok w \<Longrightarrow> sched_ok (play outcome w)"
  unfolding play_def
  by (cases outcome) (simp_all add: sched_ok_emit, rule sched_ok_startLoopCheck, simp add: sched_ok_def)

lemma sched_ok_clearLoop: "sched_ok w \<Longrightarrow> sched_ok (clearLoop w)"
  unfolding clearLoop_def Let_def sched_ok_emit
  by (rule sched_ok_stopLoopCheck) (simp add: sched_ok_def)

lemma sched_ok_toggleLoop: "sched_ok w \<Longrightarrow> sched_ok (toggleLoop w)"
proof -
  assume ok: "sched_ok w"
  let ?w2 = "emit ''looptoggle'' (PBool (\<not> isLooping w)) (w\<lparr>isLooping := \<not> isLooping w\<rparr>)"
  have "sched_ok ?w2" using ok by (simp add: sched_ok_emit) (simp add: sched_ok_def)
  then have "sched_ok (startLoopCheck ?w2)" "sched_ok (stopLoopCheck ?w2)"
    by (rule sched_ok_startLoopCheck, rule sched_ok_stopLoopCheck)
  then show ?thesis using ok by (simp add: toggleLoop_def Let_def)
qed

lemma sched_ok_loadAudio: "sched_ok w \<Longrightarrow> sched_ok (snd (loadAudio source outcome w))"
proof -
  assume ok: "sched_ok w"
  have r: "\<And>v. sched_ok v \<Longrightarrow> sched_ok (resetLoopPoints v)"
    by (simp add: resetLoopPoints_def sched_ok_clearLoop)
  show ?thesis
  proof (cases outcome)
    case (MetadataLoaded d)
    show ?thesis
    proof (cases source)
      case (SrcFile f)
      then show ?thesis using ok MetadataLoaded
        by (simp add: loadAudio_def bindSource_def Let_def sched_ok_emit handleLoadedMetadata_def)
          (rule r, simp add: sched_ok_def emit_def)
    next
      case (SrcString u)
      then show ?thesis using ok MetadataLoaded
        by (simp add: loadAudio_def bindSource_def Let_def sched_ok_emit handleLoadedMetadata_def)
          (rule r, simp add: sched_ok_def emit_def)
    next
      case SrcOther
      then show ?thesis using ok by (simp add: loadAudio_def bindSource_def Let_def sched_ok_emit)
    qed
  next
    case (LoadFailed c)
    then show ?thesis using ok
      by (cases source)
        (simp_all add: loadAudio_def bindSource_def Let_def sched_ok_emit handleError_def,
          simp_all add: sched_ok_def emit_def)
  qed
qed

lemma sched_ok_destroy: "sched_ok w \<Longrightarrow> sched_ok (destroy w)"
proof -
  assume "sched_ok w"
  then have "sched_ok (stopLoopCheck (pause w))"
    by (intro sched_ok_stopLoopCheck sched_ok_pause)
  then show ?thesis
    by (simp add: destroy_def Let_def) (simp add: sched_ok_def revokeObjectURL_keeps)
qed

lemma sched_ok_step: "sched_ok w \<Longrightarrow> sched_ok (step x w)"
proof (cases x)
  case (CmdLoadAudio source outcome)
  assume "sched_ok w" then show ?thesis using CmdLoadAudio by (simp add: sched_ok_loadAudio)
next
  case (CmdPlay outcome)
  assume "sched_ok w" then show ?thesis using CmdPlay by (simp add: sched_ok_play)
next
  case CmdPause
  assume "sched_ok w" then show ?thesis using CmdPause by (simp add: sched_ok_pause)
next
  case (CmdTogglePlayPause outcome)
  assume "sched_ok w" then show ?thesis using CmdTogglePlayPause
    by (simp add: togglePlayPause_def sched_ok_play sched_ok_pause)
next
  case CmdToggleLoop
  assume "sched_ok w" then show ?thesis using CmdToggleLoop by (simp add: sched_ok_toggleLoop)
next
  case CmdClearLoop
  assume "sched_ok w" then show ?thesis using CmdClearLoop by (simp add: sched_ok_clearLoop)
next
  case CmdResetLoopPoints
  assume "sched_ok w" then show ?thesis using CmdResetLoopPoints
    by (simp add: resetLoopPoints_def sched_ok_clearLoop)
next
  case CmdDestroy
  assume "sched_ok w" then show ?thesis using CmdDestroy by (simp add: sched_ok_destroy)
next
  case ElPlay
  assume "sched_ok w"
  then have "sched_ok (startLoopCheck (w\<lparr>audio := (audio w)\<lparr>el_paused := False\<rparr>, isPlaying := True\<rparr>))"
    by (intro sched_ok_startLoopCheck) (simp add: sched_ok_def)
  then show ?thesis using ElPlay by (simp add: handlePlay_def sched_ok_emit)
next
  case ElPause
  assume "sched_ok w"
  then have "sched_ok (stopLoopCheck (w\<lparr>audio := (audio w)\<lparr>el_paused := True\<rparr>, isPlaying := False\<rparr>))"
    by (intro sched_ok_stopLoopCheck) (simp add: sched_ok_def)
  then show ?thesis using ElPause by (simp add: handlePause_def sched_ok_emit)
next
  case ElEnded
  assume "sched_ok w"
  then have "sched_ok (stopLoopCheck (w\<lparr>isPlaying := False\<rparr>))"
    by (intro sched_ok_stopLoopCheck) (simp add: sched_ok_def)
  then show ?thesis using ElEnded by (simp add: handleEnded_def sched_ok_emit)
next
  case (TimerFired i)
  assume "sched_ok w" then show ?thesis using TimerFired
    by (simp add: timerFired_def loopCheck_def sched_ok_emit sched_ok_seek)
qed (simp_all add: sched_ok_def seek_def seekBy_def setPlaybackRate_def setVolume_def setLoopA_def
      setLoopB_def on_def off_def emit_def handleLoadedMetadata_def handleTimeUpdate_def
      handleDurationChange_def handleRateChange_def handleVolumeChange_def handleError_def Let_def)

lemma sched_ok_run: "sched_ok w \<Longrightarrow> sched_ok (run xs w)"
  by (induction xs arbitrary: w) (simp_all add: sched_ok_step del: step.simps)

lemma sched_ok_reachable: "sched_ok (run xs new_player)"
  by (rule sched_ok_run [OF sched_ok_new])

section \<open>Teardown is idempotent and leaves nothing scheduled\<close>


lemma stopLoopCheck_rest:
  "audio (stopLoopCheck w) = audio w" "eventListeners (stopLoopCheck w) = eventListeners w"
  "currentUrl (stopLoopCheck w) = currentUrl w" "currentFile (stopLoopCheck w) = currentFile w"
  "objectUrls (stopLoopCheck w) = objectUrls w"
  by (simp_all add: stopLoopCheck_def split: option.splits)

lemma stopLoopCheck_falsy: "\<not> handle_truthy (loopCheckInterval (stopLoopCheck w))"
  by (simp add: stopLoopCheck_def split: option.splits)

lemma stopLoopCheck_idle: "\<not> handle_truthy (loopCheckInterval w) \<Longrightarrow> stopLoopCheck w = w"
  by (auto simp add: stopLoopCheck_def split: option.splits)

lemma revokeObjectURL_audio:
  "revokeObjectURL u (w\<lparr>audio := a\<rparr>) = (revokeObjectURL u w)\<lparr>audio := a\<rparr>"
  by (induction u w rule: revokeObjectURL.induct) simp_all

lemma revokeObjectURL_twice:
  "revokeObjectURL u (revokeObjectURL u w) = revokeObjectURL u w"
  by (induction u w rule: revokeObjectURL.induct) simp_all

lemma already_paused: "el_paused (audio w) \<Longrightarrow> pause w = stopLoopCheck w"
proof -
  assume "el_paused (audio w)"
  then have "(audio w)\<lparr>el_paused := True\<rparr> = audio w" by (cases "audio w") simp
  then show ?thesis by (simp add: pause_def)
qed

lemma already_deaf: "eventListeners w = [] \<Longrightarrow> w\<lparr>eventListeners := []\<rparr> = w"
  by (cases w) simp

lemma destroy_form:
  "destroy w =
     (let v = (stopLoopCheck (pause w))\<lparr>eventListeners := []\<rparr>;
          v' = (if url_truthy (currentUrl w) \<and> currentFile w \<noteq> None
                then revokeObjectURL (currentUrl w) v else v)
      in v'\<lparr>audio := (audio w)\<lparr>el_paused := True, el_src := UrlString []\<rparr>\<rparr>)"
  by (auto simp add: destroy_def Let_def stopLoopCheck_rest revokeObjectURL_keeps pause_def
      stopLoopCheck_twice revokeObjectURL_audio)

lemma destroy_fields:
  "el_paused (audio (destroy w))" "el_src (audio (destroy w)) = UrlString []"
  "eventListeners (destroy w) = []" "\<not> handle_truthy (loopCheckInterval (destroy w))"
  "currentUrl (destroy w) = currentUrl w" "currentFile (destroy w) = currentFile w"
  by (simp_all add: destroy_form Let_def revokeObjectURL_keeps stopLoopCheck_rest
      stopLoopCheck_falsy pause_def)

lemma destroy_twice: "destroy (destroy w) = destroy w"
proof -
  let ?D = "destroy w"
  have v: "(stopLoopCheck (pause ?D))\<lparr>eventListeners := []\<rparr> = ?D"
    by (simp add: already_paused stopLoopCheck_idle already_deaf destroy_fields)
  have a: "(audio ?D)\<lparr>el_paused := True, el_src := UrlString []\<rparr> = audio ?D"
    using destroy_fields(1,2) [of w] by (cases "audio ?D") simp
  define c where "c = (url_truthy (currentUrl w) \<and> currentFile w \<noteq> None)"
  have r: "revokeObjectURL (currentUrl w) ?D = ?D" if c
    using that unfolding c_def
    by (simp add: destroy_form Let_def revokeObjectURL_audio revokeObjectURL_twice)
  have "destroy ?D =
     (if url_truthy (currentUrl w) \<and> currentFile w \<noteq> None
      then revokeObjectURL (currentUrl w) ?D else ?D)\<lparr>audio := audio ?D\<rparr>"
    by (subst destroy_form) (auto simp add: Let_def v a destroy_fields)
  then have e: "destroy ?D = (if c then revokeObjectURL (currentUrl w) ?D else ?D)\<lparr>audio := audio ?D\<rparr>"
    unfolding c_def .
  show ?thesis
  proof (cases c)
    case True
    then show ?thesis using e r by simp
  next
    case False
    then show ?thesis using e by simp
  qed
qed

lemma quiet_when_unscheduled:
  assumes "timers w = []"
  shows "count_emitted ''looped'' (advance ts w) = count_emitted ''looped'' w"
  using assms
proof (induction ts arbitrary: w)
  case Nil
  then show ?case by (simp add: advance_Nil)
next
  case (Cons c ts)
  show ?case
  proof (cases c)
    case (IntervalElapsed i)
    then show ?thesis using Cons by (simp add: advance_Cons timerFired_def)
  next
    case (Tick t)
    have "count_emitted ''looped'' (advance ts (step (ElTimeUpdate t) w))
        = count_emitted ''looped'' (step (ElTimeUpdate t) w)"
      using Cons.prems by (intro Cons.IH) (simp add: tick_keeps del: step.simps)
    then show ?thesis using Tick by (simp add: advance_Cons tick_keeps del: step.simps)
  qed
qed

lemma destroy_unschedules:
  assumes "sched_ok w"
  shows "timers (destroy w) = []" "loopCheckInterval (destroy w) = None"
proof -
  have ok: "sched_ok (pause w)" using assms by (rule sched_ok_pause)
  have "timers (stopLoopCheck (pause w)) = []" "loopCheckInterval (stopLoopCheck (pause w)) = None"
    using ok by (simp_all add: stopLoopCheck_timers stopLoopCheck_handle)
  then show "timers (destroy w) = []" "loopCheckInterval (destroy w) = None"
    by (simp_all add: destroy_def Let_def revokeObjectURL_keeps)
qed

lemma count_emitted_destroy: "count_emitted ev (destroy w) = count_emitted ev w"
  by (simp add: count_emitted_def destroy_keeps)

text \<open>
  C9. \<open>destroy\<close> after \<open>destroy\<close> leaves the state of a single \<open>destroy\<close>; no step of it can
  throw, so the model has no error to return. Every state the player reaches from its
  constructor keeps the schedule and its handle in agreement (\<open>sched_ok\<close>), and from such a
  state \<open>destroy\<close> leaves no interval scheduled and no handle; whatever time then brings,
  intervals elapsing and positions reported, no \<open>looped\<close> is emitted any more.
\<close>

theorem C9_destroy_idempotent:
  "destroy (destroy w) = destroy w
   \<and> sched_ok (run xs new_player)
   \<and> (sched_ok w \<longrightarrow>
        timers (destroy w) = [] \<and> loopCheckInterval (destroy w) = None
        \<and> (\<forall>ts. count_emitted ''looped'' (advance ts (destroy w))
                 = count_emitted ''looped'' (destroy w)))"
  by (simp add: destroy_twice sched_ok_reachable destroy_unschedules quiet_when_unscheduled)

theorem C9_destroy_idempotent_witness:
  "timers looping_state = [2]
   \<and> timers (destroy looping_state) = []
   \<and> count_emitted ''looped'' (advance [IntervalElapsed 2, Tick 16, IntervalElapsed 2]
        (destroy looping_state)) = 0"
proof -
  have ok: "sched_ok looping_state"
    using C9_destroy_idempotent [of new_player "[CmdLoadAudio (SrcString ''track.mp3'') (MetadataLoaded 120),
     CmdSetLoopA (Some 10), CmdSetLoopB (Some 15), CmdToggleLoop,
     CmdPlay PlayResolved, ElPlay, ElTimeUpdate 15.05]"]
    unfolding looping_state_def by blast
  have "timers (destroy looping_state) = []"
    using C9_destroy_idempotent [of looping_state "[]"] ok by blast
  moreover have "count_emitted ''looped'' (advance [IntervalElapsed 2, Tick 16, IntervalElapsed 2]
        (destroy looping_state)) = count_emitted ''looped'' (destroy looping_state)"
    using C9_destroy_idempotent [of looping_state "[]"] ok by blast
  moreover have "count_emitted ''looped'' (destroy looping_state) = 0"
    by (simp add: count_emitted_destroy looping_state_fields)
  ultimately show ?thesis by (simp add: looping_state_fields)
qed

section \<open>Errors of play\<close>

text \<open>
  C8, as the claim states it, fails. No load has succeeded (the one attempted failed), the
  element rejects \<open>play()\<close> with its own \<open>NotSupportedError\<close>, and that is what the \<open>error\<close>
  event carries: no reported error is named \<open>NoSourceError\<close>. And on the new player, which
  has no source at all, a \<open>play()\<close> that the element resolves reports no error.
\<close>

theorem C8_counterexample:
  "map error_name (reported_errors (run [CmdLoadAudio (SrcString ''missing.mp3'') (LoadFailed 4),
        CmdPlay (PlayRejected (DOMException ''NotSupportedError''))] new_player))
     = [''MediaError'', ''Event'', ''NotSupportedError'']
   \<and> ''NoSourceError'' \<notin> set (map error_name (reported_errors
        (run [CmdLoadAudio (SrcString ''missing.mp3'') (LoadFailed 4),
          CmdPlay (PlayRejected (DOMException ''NotSupportedError''))] new_player)))
   \<and> currentUrl new_player = None
   \<and> reported_errors (play PlayResolved new_player) = []"
  by (simp add: reported_errors_def player_defs Let_def)

text \<open>
  C8, amended. \<open>play\<close> does not look whether a source is loaded. In every state, when the
  element's \<open>play()\<close> rejects with an error, \<open>play\<close> emits one \<open>error\<close> event carrying
  that very error, changes nothing in the player and throws nothing; when it resolves, no
  error is reported.
\<close>

theorem C8_play_reports_unclassified:
  "reported_errors (play (PlayRejected e) w) = reported_errors w @ [e]
   \<and> emitted (play (PlayRejected e) w) = emitted w @ [(''error'', PErr e, snapshot w)]
   \<and> snapshot (play (PlayRejected e) w) = snapshot w
   \<and> reported_errors (play PlayResolved w) = reported_errors w"
  by (simp add: reported_errors_def play_def emit_def snapshot_def audio_player.truncate_def
      startLoopCheck_keeps)

lemmas controls_defs = idle_controls_def halfway_def getPercentageFromMouse_def
  updateProgressVisual_def handleDrag_def startDragging_def callSeek_def stopDragging_def
  seekToPosition_def updateProgress_def onTimeupdate_def


section \<open>What an observer is given to read\<close>

text \<open>
  C4 at \<open>setLoopA(20)\<close> with \<open>loopB = 10\<close>. The call ends with \<open>loopA = 10\<close> and \<open>loopB = 20\<close>,
  but the observer of \<open>loopaset\<close> is called before the swap: it is told \<open>20\<close> and reads
  \<open>loopA = 20\<close>, \<open>loopB = 10\<close>, two bounds out of order, and no later \<open>loopaset\<close> tells it the
  final \<open>loopA\<close>. Likewise the observer of \<open>looptoggle\<close> reads \<open>isLooping = true\<close> while no
  interval is scheduled yet; the call schedules it after the observer has returned.
\<close>

theorem C4_notified_before_committed:
  "loop_config swapping_state = (Some 10, Some 20, False)
   \<and> announced swapping_state
        = [(''loopbset'', PNum 10), (''loopaset'', PNum 20), (''loopbset'', PNum 20)]
   \<and> invoked (emitted swapping_state ! 1) = [0]
   \<and> loopA (snd (snd (emitted swapping_state ! 1))) = Some 20
   \<and> loopB (snd (snd (emitted swapping_state ! 1))) = Some 10
   \<and> \<not> seen_ordered (snd (snd (emitted swapping_state ! 1)))
   \<and> fst (last (emitted toggled_state)) = ''looptoggle''
   \<and> isLooping (snd (snd (last (emitted toggled_state))))
   \<and> loopCheckInterval (snd (snd (last (emitted toggled_state)))) = None
   \<and> loopCheckInterval toggled_state = Some 1"
  by (simp add: swapping_state_def toggled_state_def player_defs Let_def loop_config_def
      announced_def seen_ordered_def)

section \<open>Object URLs\<close>

text \<open>
  C7 at two files loaded one after the other. Both object URLs are live after the second
  load, of which the player holds the second; \<open>destroy\<close> revokes that one and the first
  stays live.
\<close>

theorem C7_replaced_url_stays_live:
  "objectUrls (run two_loads new_player) = [0, 1]
   \<and> currentUrl (run two_loads new_player) = Some (ObjectUrl 1)
   \<and> objectUrls (run (two_loads @ [CmdDestroy]) new_player) = [0]"
  by (simp add: two_loads_def player_defs Let_def)

section \<open>Releasing the progress handle\<close>

text \<open>
  C2 at a drag to the middle of the bar of a track of 200 seconds. The time shown while
  dragging is \<open>100\<close>; the release seeks to \<open>1\<close>, since \<open>handleDrag\<close> hands a fraction of \<open>1\<close> to
  \<open>updateProgressVisual\<close>, which writes it as a percentage, and \<open>stopDragging\<close> reads the
  percentage back. With the duration still \<open>0\<close> the drag itself is ignored, but the release
  calls \<open>seek\<close> all the same.
\<close>

theorem C2_release_seeks_elsewhere:
  "currentTimeShown (fst (startDragging halfway (idle_controls, new_player\<lparr>duration := 200\<rparr>)))
     = Some 100
   \<and> seekCalls (fst (snd (stopDragging
        (startDragging halfway (idle_controls, new_player\<lparr>duration := 200\<rparr>))))) = [Some 1]
   \<and> el_currentTime (audio (snd (snd (stopDragging
        (startDragging halfway (idle_controls, new_player\<lparr>duration := 200\<rparr>)))))) = 1
   \<and> duration new_player = 0
   \<and> startDragging halfway (idle_controls, new_player)
        = (idle_controls\<lparr>isDragging := True\<rparr>, new_player)
   \<and> seekCalls (fst (snd (stopDragging (startDragging halfway (idle_controls, new_player)))))
        = [Some 0]"
  by (simp add: controls_defs player_defs Let_def)

end
